theory Spec2Isabelle
  imports Complex_Main
begin

section \<open>The multi-probe decap placement environment (rl4co/envs/mdpp.py)\<close>

text \<open>
  The environment \<open>MDPPEnv\<close> extends the single-probe environment \<open>DPPEnv\<close>. Its methods
  are embedded as HOL functions. An exception is a value \<open>Inl e\<close> of a sum type, a
  tensor with one axis is a list, a batch is a list of rows. Python names that start with
  an underscore lose it (\<open>_reset\<close> is \<open>reset\<close>, \<open>_single_env_reward\<close> is
  \<open>single_env_reward\<close>), and \<open>self.size\<close> is the field \<open>env_size\<close>.
\<close>

datatype error = AssertionError | RuntimeError | TypeError

subsection \<open>Sequencing of fallible computations\<close>

text \<open>
  A list comprehension or a loop whose body may raise stops at the first exception:
  \<open>collect\<close> returns the first error of a list of results, or all the values.
\<close>

fun collect :: "(error + 'a) list \<Rightarrow> error + 'a list" where
  "collect [] = Inr []"
| "collect (Inl e # rs) = Inl e"
| "collect (Inr x # rs) = (case collect rs of Inl e \<Rightarrow> Inl e | Inr xs \<Rightarrow> Inr (x # xs))"

text \<open>Statements in sequence: the second runs on the value of the first, unless that raised.\<close>

definition then_do :: "error + 'a \<Rightarrow> ('a \<Rightarrow> error + 'b) \<Rightarrow> error + 'b" where
  "then_do r f = (case r of Inl e \<Rightarrow> Inl e | Inr x \<Rightarrow> f x)"

subsection \<open>The tensor operations the module calls\<close>

text \<open>
  \<open>torch.nonzero\<close> of a boolean vector lists the indices of its true cells in increasing
  order, as a \<open>k \<times> 1\<close> tensor of 64-bit integers.
\<close>

definition nonzero :: "bool list \<Rightarrow> nat list" where
  "nonzero m = filter (\<lambda>c. m ! c) [0..<length m]"

text \<open>
  \<open>squeeze()\<close> removes every axis of length one. A \<open>k \<times> 1\<close> tensor becomes a vector of
  length \<open>k\<close>, except for \<open>k = 1\<close>, where both axes go and a zero-dimensional tensor is left.
\<close>

datatype index_tensor = ZeroDim nat | OneDim "nat list"

definition squeeze :: "nat list \<Rightarrow> index_tensor" where
  "squeeze ks = (case ks of [c] \<Rightarrow> ZeroDim c | _ \<Rightarrow> OneDim ks)"

text \<open>
  Storing a floating-point score into a tensor of 64-bit integers converts it by
  truncation toward zero. Scores are idealised as reals and stay far inside the range
  of a 64-bit integer.
\<close>

definition to_long :: "real \<Rightarrow> int" where
  "to_long x = (if 0 \<le> x then \<lfloor>x\<rfloor> else \<lceil>x\<rceil>)"

text \<open>\<open>min()\<close> of a tensor without elements raises; otherwise it is the least element.\<close>

definition tensor_min :: "int list \<Rightarrow> error + int" where
  "tensor_min xs = (case xs of [] \<Rightarrow> Inl RuntimeError | x # ys \<Rightarrow> Inr (fold min ys x))"

text \<open>
  \<open>mean()\<close> is defined for floating-point and complex tensors only: on a tensor of
  64-bit integers it raises, whatever the elements are.
\<close>

definition mean_long :: "int list \<Rightarrow> error + int" where
  "mean_long xs = Inl RuntimeError"

text \<open>\<open>torch.stack\<close> of a list of scalars is the vector of them; the empty list is refused.\<close>

definition stack :: "'a list \<Rightarrow> error + 'a list" where
  "stack xs = (if xs = [] then Inl RuntimeError else Inr xs)"

text \<open>
  \<open>a.scatter(0, idx, v)\<close> writes \<open>v\<close> at every index of \<open>idx\<close>; an index outside the
  vector raises.
\<close>

definition write_at :: "bool list \<Rightarrow> nat list \<Rightarrow> bool \<Rightarrow> bool list" where
  "write_at a idx v = fold (\<lambda>i acc. acc[i := v]) idx a"

definition scatter :: "bool list \<Rightarrow> nat list \<Rightarrow> bool \<Rightarrow> error + bool list" where
  "scatter a idx v =
     (if list_all (\<lambda>i. i < length a) idx then Inr (write_at a idx v) else Inl RuntimeError)"

text \<open>The same write, row by row over a batch: row \<open>i\<close> of the indices goes to row \<open>i\<close>.\<close>

definition scatter_rows :: "bool list list \<Rightarrow> nat list list \<Rightarrow> bool \<Rightarrow> error + bool list list" where
  "scatter_rows rows idxs v = collect (map (\<lambda>(a, idx). scatter a idx v) (zip rows idxs))"

text \<open>
  \<open>torch.randint(low, high, size)\<close> refuses an empty range \<open>high \<le> low\<close> whatever the
  size is, and otherwise reduces each raw draw of the generator into \<open>[low, high)\<close>. The
  raw draws are an argument: one natural number for each element.
\<close>

definition randint1 :: "int \<Rightarrow> int \<Rightarrow> nat \<Rightarrow> int" where
  "randint1 low high r = low + int r mod (high - low)"

definition randint :: "int \<Rightarrow> int \<Rightarrow> nat list \<Rightarrow> error + int list" where
  "randint low high raw =
     (if low < high then Inr (map (randint1 low high) raw) else Inl RuntimeError)"

text \<open>
  \<open>torch.randperm(n)\<close> returns a permutation of \<open>0, \<dots>, n - 1\<close>. The permutation drawn
  is an argument of the model, and \<open>is_randperm\<close> says that a list can be such a draw.
\<close>

definition is_randperm :: "nat \<Rightarrow> nat list \<Rightarrow> bool" where
  "is_randperm n p \<longleftrightarrow> length p = n \<and> distinct p \<and> list_all (\<lambda>c. c < n) p"

text \<open>
  The slice \<open>xs[:p]\<close> with a Python integer: the first \<open>p\<close> elements, and for a negative
  \<open>p\<close> all but the last \<open>- p\<close>.
\<close>

definition slice_to :: "int \<Rightarrow> 'a list \<Rightarrow> 'a list" where
  "slice_to p xs = (if 0 \<le> p then take (nat p) xs else take (length xs - nat (- p)) xs)"

subsection \<open>Data\<close>

text \<open>
  The fields of the environment that the module reads. \<open>env_size\<close> and the keepout bounds
  are set by the constructor of \<open>DPPEnv\<close>, the last three by \<open>MDPPEnv.__init__\<close>.
\<close>

record env =
  env_size :: nat
  num_keepout_min :: int
  num_keepout_max :: int
  num_probes_min :: int
  num_probes_max :: int
  reward_type :: string

text \<open>One problem instance: a row of the batched tensor dictionary.\<close>

record problem =
  locs :: "(real \<times> real) list"
  probe :: "bool list"
  action_mask :: "bool list"

text \<open>A tensor dictionary has no batch axis (\<open>batch_size = []\<close>) or one.\<close>

datatype 'a batched = Unbatched 'a | Batched "'a list"

fun rows :: "'a batched \<Rightarrow> 'a list" where
  "rows (Unbatched x) = [x]"
| "rows (Batched xs) = xs"

subsection \<open>Reward\<close>

text \<open>
  \<open>_decap_simulator\<close> is a method of \<open>DPPEnv\<close> that runs the physical simulation: it is
  the argument \<open>decap_simulator\<close>, a function of the probe cell and the placement sequence
  that returns a score.

  \<open>fill_scores\<close> is the loop of \<open>_single_env_reward\<close>: \<open>scores\<close> starts as
  \<open>zeros_like(list_probe)\<close>, which has the element type of \<open>list_probe\<close>, 64-bit integers,
  and \<open>scores[i]\<close> receives the score of the \<open>i\<close>-th probe.
\<close>

definition fill_scores :: "(nat \<Rightarrow> nat list \<Rightarrow> real) \<Rightarrow> nat list \<Rightarrow> nat list \<Rightarrow> int list" where
  "fill_scores decap_simulator actions list_probe =
     fold (\<lambda>(i, p) scores. scores[i := to_long (decap_simulator p actions)])
          (enumerate 0 list_probe) (replicate (length list_probe) 0)"

text \<open>
  Iterating over a zero-dimensional tensor raises \<open>TypeError\<close>, so the loop is reached
  only with a vector of probes.
\<close>

definition single_env_reward ::
  "env \<Rightarrow> (nat \<Rightarrow> nat list \<Rightarrow> real) \<Rightarrow> problem \<Rightarrow> nat list \<Rightarrow> error + int" where
  "single_env_reward self decap_simulator td actions =
     (case squeeze (nonzero (probe td)) of
        ZeroDim p \<Rightarrow> Inl TypeError
      | OneDim list_probe \<Rightarrow>
          (let scores = fill_scores decap_simulator actions list_probe
           in if reward_type self = ''minmax'' then tensor_min scores else mean_long scores))"

text \<open>
  \<open>get_reward\<close> is called with an instance and its actions, or with a batch of instances
  and one row of actions for each. The unbatched call gets a batch axis of length one.
\<close>

datatype reward_input =
  Single problem "nat list"
| Batch "problem list" "nat list list"

definition get_reward ::
  "env \<Rightarrow> (nat \<Rightarrow> nat list \<Rightarrow> real) \<Rightarrow> reward_input \<Rightarrow> error + int list" where
  "get_reward self decap_simulator inp =
     (let (td, actions) = (case inp of Single t a \<Rightarrow> ([t], [a]) | Batch ts as \<Rightarrow> (ts, as))
      in then_do (collect (map (\<lambda>(td_single, action).
                    single_env_reward self decap_simulator td_single action) (zip td actions)))
           stack)"

subsection \<open>Construction\<close>

text \<open>
  \<open>__init__\<close> first runs the constructor of \<open>DPPEnv\<close> on the remaining keyword arguments.
  That constructor is not part of the module: it is the argument \<open>super_init\<close>, which
  raises or returns the fields it sets. Then the reward type is asserted, and
  \<open>_make_spec\<close> declares the shapes of the fields.
\<close>

record dpp_fields =
  base_size :: nat
  base_keepout_min :: int
  base_keepout_max :: int

record specs =
  locs_shape :: "nat \<times> nat"
  probe_shape :: nat
  action_mask_shape :: nat
  action_maximum :: nat

definition make_spec :: "env \<Rightarrow> specs" where
  "make_spec self =
     \<lparr>locs_shape = ((env_size self)\<^sup>2, 2), probe_shape = (env_size self)\<^sup>2,
      action_mask_shape = (env_size self)\<^sup>2, action_maximum = (env_size self)\<^sup>2\<rparr>"

definition init :: "('kw \<Rightarrow> error + dpp_fields) \<Rightarrow> int \<Rightarrow> int \<Rightarrow> string \<Rightarrow> 'kw \<Rightarrow> error + env \<times> specs" where
  "init super_init probes_min probes_max rtype kwargs =
     (case super_init kwargs of
        Inl e \<Rightarrow> Inl e
      | Inr base \<Rightarrow>
          if rtype \<in> set [''minmax'', ''meansum''] then
            (let self = \<lparr>env_size = base_size base, num_keepout_min = base_keepout_min base,
                         num_keepout_max = base_keepout_max base, num_probes_min = probes_min,
                         num_probes_max = probes_max, reward_type = rtype\<rparr>
             in Inr (self, make_spec self))
          else Inl AssertionError)"

subsection \<open>Reset\<close>

text \<open>
  The state after a reset: the instance and the counter of placements made.
\<close>

record state = problem +
  step_count :: nat

fun map_batched :: "('a \<Rightarrow> 'b) \<Rightarrow> 'a batched \<Rightarrow> 'b batched" where
  "map_batched f (Unbatched x) = Unbatched (f x)"
| "map_batched f (Batched xs) = Batched (map f xs)"

text \<open>
  \<open>_reset\<close> calls the reset of \<open>DPPEnv\<close>, here the argument \<open>super_reset\<close>, and replaces
  the action mask of its result by \<open>torch.logical_or\<close> of that mask and the probe mask,
  cell by cell.
\<close>

definition reset :: "('a \<Rightarrow> error + state batched) \<Rightarrow> 'a \<Rightarrow> error + state batched" where
  "reset super_reset td =
     then_do (super_reset td) (\<lambda>td_reset.
       Inr (map_batched
              (\<lambda>s. s\<lparr>action_mask := map2 (\<or>) (action_mask s) (probe s)\<rparr>) td_reset))"

text \<open>
  Modelled from the spec: the reset of the base class \<open>DPPEnv\<close> is not in the source.
  The spec (section 4.3) has it populate the locations and the progress fields from the
  instance it is given; the probe mask and the action mask of the instance are carried
  over, and no placement has been made.
\<close>

definition dpp_reset :: "problem batched \<Rightarrow> error + state batched" where
  "dpp_reset td =
     Inr (map_batched (\<lambda>p. \<lparr>locs = locs p, probe = probe p, action_mask = action_mask p,
                              step_count = 0\<rparr>) td)"

subsection \<open>Generation\<close>

text \<open>
  The argument \<open>batch_size\<close> of \<open>generate_data\<close> is an integer, the empty list or a list
  of one length: the writes along axis 1 and the loops over the rows are written for a
  single batch axis.
\<close>

datatype batch_size = IntSize nat | NoBatch | OneAxis nat

text \<open>
  What the random generator hands out for one row of the batch, in the order of the
  calls: the raw draw for the designated probe cell, the raw draw for the number of
  probes, the permutation the probes are taken from, the raw draw for the number of
  keepout cells and the permutation the keepout cells are taken from.
\<close>

record draws =
  d_probe :: nat
  d_num_probe :: nat
  d_perm_probe :: "nat list"
  d_num_keepout :: nat
  d_perm_keepout :: "nat list"

definition generate_data :: "env \<Rightarrow> batch_size \<Rightarrow> (nat \<Rightarrow> draws) \<Rightarrow> error + problem batched" where
  "generate_data self batch_size rnd =
     (let m = env_size self; n = env_size self;
          batched = (case batch_size of NoBatch \<Rightarrow> False | _ \<Rightarrow> True);
          b = (case batch_size of IntSize k \<Rightarrow> k | NoBatch \<Rightarrow> 1 | OneAxis k \<Rightarrow> k);
          ds = map rnd [0..<b];
          grid = concat (map (\<lambda>i. map (\<lambda>j. (real i / real m, real j / real n)) [0..<n]) [0..<m]);
          available = replicate b (replicate (m * n) True)
      in
      then_do (randint 0 (int (m * n)) (map d_probe ds)) (\<lambda>designated.
      then_do (scatter_rows available (map (\<lambda>c. [nat c]) designated) False) (\<lambda>available1.
      then_do (randint (num_probes_min self) (num_probes_max self) (map d_num_probe ds)) (\<lambda>num_probe.
      let probe_idx = map (\<lambda>(p, d). slice_to p (d_perm_probe d)) (zip num_probe ds) in
      then_do (scatter_rows available1 probe_idx False) (\<lambda>available2.
      then_do (scatter_rows (replicate b (replicate (m * n) False)) probe_idx True) (\<lambda>probes.
      then_do (randint (num_keepout_min self) (num_keepout_max self) (map d_num_keepout ds)) (\<lambda>num_keepout.
      let keepouts = map (\<lambda>(k, d). slice_to k (d_perm_keepout d)) (zip num_keepout ds) in
      then_do (scatter_rows available2 keepouts False) (\<lambda>available3.
      let out = map (\<lambda>(pr, av). \<lparr>locs = grid, probe = pr, action_mask = av\<rparr>) (zip probes available3)
      in Inr (if batched then Batched out else Unbatched (hd out))))))))))"

subsection \<open>The generated batch, row by row\<close>

text \<open>
  Names for what \<open>generate_data\<close> computes for the row with draws \<open>d\<close>: the designated
  probe cell, the sampled number of probes \<open>num_probe\<close> and the cells \<open>randperm(m * n)[:p]\<close>
  it selects, the sampled number of keepout cells and the cells it selects.
\<close>

definition num_cells :: "env \<Rightarrow> nat" where
  "num_cells self = env_size self * env_size self"

definition batch_len :: "batch_size \<Rightarrow> nat" where
  "batch_len bsz = (case bsz of IntSize k \<Rightarrow> k | NoBatch \<Rightarrow> 1 | OneAxis k \<Rightarrow> k)"

definition designated_cell :: "env \<Rightarrow> draws \<Rightarrow> nat" where
  "designated_cell self d = nat (randint1 0 (int (num_cells self)) (d_probe d))"

definition num_probe_of :: "env \<Rightarrow> draws \<Rightarrow> int" where
  "num_probe_of self d = randint1 (num_probes_min self) (num_probes_max self) (d_num_probe d)"

definition probe_cells :: "env \<Rightarrow> draws \<Rightarrow> nat list" where
  "probe_cells self d = slice_to (num_probe_of self d) (d_perm_probe d)"

definition num_keepout_of :: "env \<Rightarrow> draws \<Rightarrow> int" where
  "num_keepout_of self d = randint1 (num_keepout_min self) (num_keepout_max self) (d_num_keepout d)"

definition keepout_cells :: "env \<Rightarrow> draws \<Rightarrow> nat list" where
  "keepout_cells self d = slice_to (num_keepout_of self d) (d_perm_keepout d)"

text \<open>The row that results when no write is out of range, and the shape of the output.\<close>

definition grid_locs :: "env \<Rightarrow> (real \<times> real) list" where
  "grid_locs self =
     concat (map (\<lambda>i. map (\<lambda>j. (real i / real (env_size self), real j / real (env_size self)))
                          [0..<env_size self]) [0..<env_size self])"

definition gen_row :: "env \<Rightarrow> draws \<Rightarrow> problem" where
  "gen_row self d =
     \<lparr>locs = grid_locs self,
      probe = write_at (replicate (num_cells self) False) (probe_cells self d) True,
      action_mask =
        write_at (write_at (write_at (replicate (num_cells self) True)
                              [designated_cell self d] False)
                    (probe_cells self d) False)
          (keepout_cells self d) False\<rparr>"

definition pack :: "batch_size \<Rightarrow> 'a list \<Rightarrow> 'a batched" where
  "pack bsz out = (case bsz of NoBatch \<Rightarrow> Unbatched (hd out) | _ \<Rightarrow> Batched out)"

definition in_range :: "env \<Rightarrow> draws \<Rightarrow> bool" where
  "in_range self d \<longleftrightarrow>
     list_all (\<lambda>i. i < num_cells self) (probe_cells self d) \<and>
     list_all (\<lambda>i. i < num_cells self) (keepout_cells self d)"

subsection \<open>A concrete instance\<close>

text \<open>
  A 3 by 3 grid with two to four probes and one or two keepout cells, and draws of the
  generator for one row: the designated probe cell is \<open>7 mod 9 = 7\<close>, two probes are
  taken from the first permutation (cells 4 and 0) and two keepout cells from the second
  (cells 0 and 5).
\<close>

definition grid3 :: env where
  "grid3 = \<lparr>env_size = 3, num_keepout_min = 1, num_keepout_max = 3,
            num_probes_min = 2, num_probes_max = 5, reward_type = ''minmax''\<rparr>"

definition draw3 :: draws where
  "draw3 = \<lparr>d_probe = 7, d_num_probe = 0, d_perm_probe = [4, 0, 8, 2, 6, 1, 3, 5, 7],
            d_num_keepout = 1, d_perm_keepout = [0, 5, 1, 2, 3, 4, 6, 7, 8]\<rparr>"

section \<open>Properties\<close>

subsection \<open>Sequencing\<close>

lemma then_do_Inr [simp]: "then_do (Inr x) f = f x"
  by (simp add: then_do_def)

lemma then_do_Inl [simp]: "then_do (Inl e) f = Inl e"
  by (simp add: then_do_def)

lemma then_do_eq_Inr: "then_do r f = Inr y \<longleftrightarrow> (\<exists>x. r = Inr x \<and> f x = Inr y)"
  by (cases r) simp_all

lemma collect_map_Inr: "collect (map Inr xs) = Inr xs"
  by (induction xs) simp_all

lemma collect_Inr_D: "collect rs = Inr xs \<Longrightarrow> rs = map Inr xs"
proof (induction rs arbitrary: xs rule: collect.induct)
  case 1
  then show ?case by simp
next
  case (2 e rs)
  then show ?case by simp
next
  case (3 x rs)
  then obtain ys where ys: "collect rs = Inr ys" and xs: "xs = x # ys"
    by (auto split: sum.splits)
  from "3.IH" [OF ys] xs show ?case by simp
qed

lemma collect_eq_Inr: "collect rs = Inr xs \<longleftrightarrow> rs = map Inr xs"
  using collect_map_Inr collect_Inr_D by metis

lemma collect_map_if:
  "collect (map (\<lambda>z. if P z then Inr (g z) else Inl e) zs) =
     (if list_all P zs then Inr (map g zs) else Inl e)"
  by (induction zs) auto

subsection \<open>The reward loop\<close>

lemma fold_update_enumerate:
  "length ps \<le> length zs \<Longrightarrow>
   fold (\<lambda>(i, p) scores. scores[i := f p]) (enumerate 0 ps) zs = map f ps @ drop (length ps) zs"
proof (induction ps arbitrary: zs rule: rev_induct)
  case Nil
  show ?case by simp
next
  case (snoc p ps)
  then have len: "length ps < length zs" by simp
  have "fold (\<lambda>(i, p) scores. scores[i := f p]) (enumerate 0 (ps @ [p])) zs
        = (map f ps @ drop (length ps) zs)[length ps := f p]"
    using snoc.IH [of zs] len by (simp add: enumerate_append_eq)
  also have "\<dots> = map f ps @ (drop (length ps) zs)[0 := f p]"
    by (simp add: list_update_append)
  also have "(drop (length ps) zs)[0 := f p] = f p # drop (Suc (length ps)) zs"
    using len by (metis Cons_nth_drop_Suc list_update_code(2))
  finally show ?case by simp
qed

lemma fill_scores_map:
  "fill_scores decap_simulator actions list_probe =
   map (\<lambda>p. to_long (decap_simulator p actions)) list_probe"
  unfolding fill_scores_def by (simp add: fold_update_enumerate)

lemma length_nonzero: "length (nonzero m) = count_list m True"
proof -
  have "length (filter (\<lambda>c. m ! c) [0..<length m]) = length (filter (\<lambda>b. b) (map (nth m) [0..<length m]))"
    by (simp add: comp_def)
  also have "\<dots> = length (filter (\<lambda>b. b) m)" by (simp add: map_nth)
  also have "\<dots> = count_list m True"
    by (induction m) auto
  finally show ?thesis by (simp add: nonzero_def)
qed

lemma squeeze_cases:
  "squeeze ks = (if length ks = 1 then ZeroDim (hd ks) else OneDim ks)"
  by (cases ks; cases "tl ks") (auto simp: squeeze_def split: list.splits)

lemma tensor_min_eq_Inr: "tensor_min xs = Inr r \<Longrightarrow> xs \<noteq> []"
  by (auto simp: tensor_min_def)

lemma tensor_min_returns: "xs \<noteq> [] \<Longrightarrow> \<exists>r. tensor_min xs = Inr r"
  by (cases xs) (auto simp: tensor_min_def)

lemma tensor_min_is_Min: "xs \<noteq> [] \<Longrightarrow> tensor_min xs = Inr (Min (set xs))"
proof (cases xs)
  case Nil
  assume "xs \<noteq> []" with Nil show ?thesis by simp
next
  case (Cons x ys)
  have "fold min ys x = Min (set (x # ys))"
    by (rule Min.set_eq_fold [symmetric])
  with Cons show ?thesis by (simp add: tensor_min_def)
qed

lemma single_env_reward_cases:
  "single_env_reward self sim td actions =
     (if count_list (probe td) True = 1 then Inl TypeError
      else if reward_type self = ''minmax'' then
        tensor_min (map (\<lambda>p. to_long (sim p actions)) (nonzero (probe td)))
      else Inl RuntimeError)"
  by (simp add: single_env_reward_def squeeze_cases fill_scores_map mean_long_def
      length_nonzero [symmetric])

lemma single_env_reward_minmax:
  assumes "reward_type self = ''minmax''" and "2 \<le> count_list (probe td) True"
  shows "single_env_reward self sim td actions =
           Inr (Min (set (map (\<lambda>p. to_long (sim p actions)) (nonzero (probe td)))))"
proof -
  from assms(2) have "nonzero (probe td) \<noteq> []"
    using length_nonzero [of "probe td"] by auto
  then have "map (\<lambda>p. to_long (sim p actions)) (nonzero (probe td)) \<noteq> []" by simp
  from tensor_min_is_Min [OF this] assms show ?thesis
    by (simp add: single_env_reward_cases)
qed

lemma get_reward_single:
  "get_reward self sim (Single td a) = get_reward self sim (Batch [td] [a])"
  by (simp add: get_reward_def)

lemma get_reward_length:
  assumes "get_reward self sim (Batch tds acts) = Inr rs"
  shows "length rs = min (length tds) (length acts)"
proof -
  from assms obtain xs where
    c: "collect (map (\<lambda>(td_single, action). single_env_reward self sim td_single action)
          (zip tds acts)) = Inr xs" and st: "stack xs = Inr rs"
    by (auto simp: get_reward_def then_do_eq_Inr)
  from st have "rs = xs" by (simp add: stack_def split: if_splits)
  moreover from c have "length xs = length (zip tds acts)"
    by (metis collect_Inr_D length_map)
  ultimately show ?thesis by simp
qed

lemma get_reward_returns:
  assumes mm: "reward_type self = ''minmax''" and ne: "tds \<noteq> []"
    and len: "length acts = length tds"
    and two: "list_all (\<lambda>td. 2 \<le> count_list (probe td) True) tds"
  shows "\<exists>rs. get_reward self sim (Batch tds acts) = Inr rs"
proof -
  let ?f = "\<lambda>(td_single, action). single_env_reward self sim td_single action"
  let ?g = "\<lambda>(td, a). Min (set (map (\<lambda>p. to_long (sim p a)) (nonzero (probe td))))"
  have "map ?f (zip tds acts) = map Inr (map ?g (zip tds acts))"
    using two by (auto simp: list_all_iff single_env_reward_minmax [OF mm] dest: set_zip_leftD)
  then have "collect (map ?f (zip tds acts)) = Inr (map ?g (zip tds acts))"
    by (simp only: collect_map_Inr)
  moreover have "map ?g (zip tds acts) \<noteq> []" using ne len by (cases tds; cases acts) auto
  ultimately show ?thesis by (simp add: get_reward_def stack_def)
qed

lemma get_reward_meansum_fails:
  "get_reward (self\<lparr>reward_type := ''meansum''\<rparr>) decap_simulator inp \<noteq> Inr rs"
proof
  let ?self = "self\<lparr>reward_type := ''meansum''\<rparr>"
  let ?f = "\<lambda>(td_single, action). single_env_reward ?self decap_simulator td_single action"
  assume ret: "get_reward ?self decap_simulator inp = Inr rs"
  obtain td actions where ta:
    "(case inp of Single t a \<Rightarrow> ([t], [a]) | Batch ts as \<Rightarrow> (ts, as)) = (td, actions)"
    by (cases "case inp of Single t a \<Rightarrow> ([t], [a]) | Batch ts as \<Rightarrow> (ts, as)") blast
  from ret ta obtain xs where c: "collect (map ?f (zip td actions)) = Inr xs"
    and st: "stack xs = Inr rs"
    by (auto simp: get_reward_def then_do_eq_Inr)
  from st have "xs \<noteq> []" by (simp add: stack_def split: if_splits)
  moreover from c have m: "map ?f (zip td actions) = map Inr xs" by (rule collect_Inr_D)
  ultimately obtain z zs where z: "zip td actions = z # zs"
    by (cases "zip td actions") auto
  with m obtain x where "?f z = Inr x" by (cases xs) auto
  then show False by (cases z) (simp add: single_env_reward_cases split: if_splits)
qed

subsection \<open>Writes and draws\<close>

lemma scatter_rows_map:
  "scatter_rows (map f ds) (map g ds) v =
     (if list_all (\<lambda>d. list_all (\<lambda>i. i < length (f d)) (g d)) ds
      then Inr (map (\<lambda>d. write_at (f d) (g d) v) ds) else Inl RuntimeError)"
proof -
  have "map (\<lambda>(a, idx). scatter a idx v) (zip (map f ds) (map g ds)) =
        map (\<lambda>d. if list_all (\<lambda>i. i < length (f d)) (g d)
                  then Inr (write_at (f d) (g d) v) else Inl RuntimeError) ds"
    by (simp add: zip_map_map zip_same_conv_map scatter_def comp_def)
  then show ?thesis
    unfolding scatter_rows_def by (simp only: collect_map_if)
qed

lemma length_write_at [simp]: "length (write_at a idx v) = length a"
  unfolding write_at_def by (induction idx arbitrary: a) simp_all

lemma nth_write_at:
  "c < length a \<Longrightarrow> write_at a idx v ! c = (if c \<in> set idx then v else a ! c)"
  unfolding write_at_def
proof (induction idx arbitrary: a)
  case Nil
  show ?case by simp
next
  case (Cons i idx)
  have len: "c < length (a[i := v])" using Cons.prems by simp
  show ?case
    using Cons.IH [OF len] Cons.prems by (auto simp: nth_list_update)
qed

lemma count_write_at:
  assumes "distinct idx" and "list_all (\<lambda>i. i < n) idx"
  shows "count_list (write_at (replicate n False) idx True) True = length idx"
proof -
  let ?m = "write_at (replicate n False) idx True"
  have "count_list ?m True = length (filter (\<lambda>c. ?m ! c) [0..<n])"
    by (simp add: length_nonzero [symmetric] nonzero_def)
  also have "filter (\<lambda>c. ?m ! c) [0..<n] = filter (\<lambda>c. c \<in> set idx) [0..<n]"
    by (rule filter_cong) (simp_all add: nth_write_at)
  also have "length \<dots> = card ({c. c \<in> set idx} \<inter> set [0..<n])"
    by (rule distinct_length_filter) simp
  also have "{c. c \<in> set idx} \<inter> set [0..<n] = set idx"
    using assms(2) by (auto simp: list_all_iff)
  also have "card (set idx) = length idx"
    using assms(1) by (rule distinct_card)
  finally show ?thesis .
qed

lemma randint1_range:
  assumes "low < high"
  shows "low \<le> randint1 low high r \<and> randint1 low high r < high"
proof -
  from assms have pos: "0 < high - low" by simp
  have "0 \<le> int r mod (high - low)" using pos by (rule pos_mod_sign)
  moreover have "int r mod (high - low) < high - low" using pos by (rule pos_mod_bound)
  ultimately show ?thesis unfolding randint1_def by linarith
qed

lemma slice_to_randperm:
  assumes "is_randperm n perm"
  shows "distinct (slice_to p perm)" and "list_all (\<lambda>i. i < n) (slice_to p perm)"
    and "0 \<le> p \<Longrightarrow> p \<le> int n \<Longrightarrow> length (slice_to p perm) = nat p"
  using assms
  by (auto simp: is_randperm_def slice_to_def list_all_iff dest: in_set_takeD)

lemma designated_cell_eq: "designated_cell self d = d_probe d mod num_cells self"
  by (simp add: designated_cell_def randint1_def nat_mod_as_int [symmetric] flip: zmod_int)

lemma designated_cell_less: "0 < num_cells self \<Longrightarrow> designated_cell self d < num_cells self"
  by (simp add: designated_cell_eq)

lemma zip_map_same: "zip (map g xs) xs = map (\<lambda>x. (g x, x)) xs"
  by (induction xs) simp_all

subsection \<open>The generated batch\<close>

text \<open>
  \<open>generate_data\<close> raises exactly when the grid has no cell, a range of \<open>randint\<close> is
  empty or a write is out of range; otherwise row \<open>i\<close> of its output is \<open>gen_row\<close> of the
  draws of row \<open>i\<close>.
\<close>

lemma generate_data_eq:
  "generate_data self bsz rnd =
     (if 0 < num_cells self \<and> num_probes_min self < num_probes_max self
         \<and> num_keepout_min self < num_keepout_max self
         \<and> list_all (in_range self) (map rnd [0..<batch_len bsz])
      then Inr (pack bsz (map (gen_row self) (map rnd [0..<batch_len bsz])))
      else Inl RuntimeError)"
proof -
  define ds where "ds = map rnd [0..<batch_len bsz]"
  have rep: "replicate (batch_len bsz) x = map (\<lambda>_. x) ds" for x :: "bool list"
    by (simp add: ds_def map_replicate_const)
  have b: "(case bsz of IntSize k \<Rightarrow> k | NoBatch \<Rightarrow> 1 | OneAxis k \<Rightarrow> k) = batch_len bsz"
    by (simp add: batch_len_def)
  have desig: "0 < num_cells self \<Longrightarrow> list_all (\<lambda>d. designated_cell self d < num_cells self) ds"
    by (simp add: list_all_iff designated_cell_less)
  have rows: "(\<lambda>d. \<lparr>locs = grid_locs self,
        probe = write_at (replicate (num_cells self) False) (probe_cells self d) True,
        action_mask = write_at (write_at (write_at (replicate (num_cells self) True)
                              [designated_cell self d] False)
                    (probe_cells self d) False) (keepout_cells self d) False\<rparr>) = gen_row self"
    by (simp add: gen_row_def fun_eq_iff)
  have ir: "list_all (in_range self) ds \<longleftrightarrow>
      list_all (\<lambda>d. list_all (\<lambda>i. i < num_cells self) (probe_cells self d)) ds \<and>
      list_all (\<lambda>d. list_all (\<lambda>i. i < num_cells self) (keepout_cells self d)) ds"
    by (auto simp: in_range_def list_all_iff)
  show ?thesis
    unfolding generate_data_def Let_def b ds_def [symmetric] rep num_cells_def [symmetric]
      grid_locs_def [symmetric]
    using desig
    by (cases bsz)
      (simp_all add: randint_def scatter_rows_map zip_map_map zip_same_conv_map zip_map_same
        comp_def flip: designated_cell_def num_probe_of_def probe_cells_def
        num_keepout_of_def keepout_cells_def, 
       auto simp: ir rows pack_def)
qed

lemma generate_data_rows:
  assumes "generate_data self bsz rnd = Inr out"
  shows "rows out = map (gen_row self) (map rnd [0..<batch_len bsz])"
proof -
  from assms have out: "out = pack bsz (map (gen_row self) (map rnd [0..<batch_len bsz]))"
    by (simp add: generate_data_eq split: if_splits)
  show ?thesis
    unfolding out by (cases bsz) (simp_all add: pack_def batch_len_def)
qed

lemma generate_data_valid:
  assumes "generate_data self bsz rnd = Inr out"
  shows "0 < num_cells self" and "num_probes_min self < num_probes_max self"
    and "num_keepout_min self < num_keepout_max self"
    and "i < batch_len bsz \<Longrightarrow> in_range self (rnd i)"
  using assms by (auto simp: generate_data_eq list_all_iff split: if_splits)

lemma generate_data_row:
  assumes "generate_data self bsz rnd = Inr out" and "i < length (rows out)"
  shows "rows out ! i = gen_row self (rnd i)" and "i < batch_len bsz"
  using assms by (simp_all add: generate_data_rows)

lemma is_randperm_in_range:
  "is_randperm (num_cells self) (d_perm_probe d) \<Longrightarrow>
   is_randperm (num_cells self) (d_perm_keepout d) \<Longrightarrow> in_range self d"
  by (simp add: in_range_def probe_cells_def keepout_cells_def slice_to_randperm)

lemma generate_data_returns:
  assumes "0 < num_cells self" and "num_probes_min self < num_probes_max self"
    and "num_keepout_min self < num_keepout_max self"
    and "\<And>i. i < batch_len bsz \<Longrightarrow> in_range self (rnd i)"
  shows "\<exists>out. generate_data self bsz rnd = Inr out"
  using assms by (simp add: generate_data_eq list_all_iff)

lemma gen_row_lengths:
  "length (probe (gen_row self d)) = num_cells self"
  "length (action_mask (gen_row self d)) = num_cells self"
  by (simp_all add: gen_row_def)

lemma gen_row_probe:
  "c < num_cells self \<Longrightarrow> probe (gen_row self d) ! c \<longleftrightarrow> c \<in> set (probe_cells self d)"
  by (simp add: gen_row_def nth_write_at)

lemma gen_row_action_mask:
  "c < num_cells self \<Longrightarrow>
   action_mask (gen_row self d) ! c \<longleftrightarrow>
     c \<noteq> designated_cell self d \<and> c \<notin> set (probe_cells self d) \<and> c \<notin> set (keepout_cells self d)"
  by (simp add: gen_row_def nth_write_at)

text \<open>The concrete instance, evaluated.\<close>

lemma replicate_9: "replicate 9 x = [x, x, x, x, x, x, x, x, x]"
  by (simp add: eval_nat_numeral)

lemmas eval_generate =
  replicate_9 generate_data_eq gen_row_def write_at_def probe_cells_def keepout_cells_def slice_to_def
  num_probe_of_def num_keepout_of_def randint1_def in_range_def num_cells_def batch_len_def
  pack_def designated_cell_eq grid3_def draw3_def

lemma generate_grid3:
  "generate_data grid3 (IntSize 1) (\<lambda>i. draw3) =
     Inr (Batched [\<lparr>locs = grid_locs grid3,
        probe = [True, False, False, False, True, False, False, False, False],
        action_mask = [False, True, True, True, False, False, True, False, True]\<rparr>])"
  by (simp add: eval_generate)

section \<open>The claims\<close>

subsection \<open>Masking at reset\<close>

text \<open>
  Claim C1. The spec requires that after \<open>_reset\<close> no probe cell is selectable:
  \<open>action_mask[c]\<close> is false wherever \<open>probe[c]\<close> is true, true meaning legal to select.
  The code combines the two masks with \<open>logical_or\<close>, which sets the action mask to true
  at every probe cell. On the instance generated from \<open>grid3\<close> and \<open>draw3\<close>, whose probe
  cells 0 and 4 are excluded by \<open>generate_data\<close>, the mask after \<open>_reset\<close> is true at cells
  0 and 4. The docstring of \<open>generate_data\<close> has the action mask eliminate the probe
  locations, as the generated mask does.
\<close>

theorem reset_selects_probe_cell:
  "reset Inr (Unbatched \<lparr>locs = grid_locs grid3,
        probe = [True, False, False, False, True, False, False, False, False],
        action_mask = [False, True, True, True, False, False, True, False, True],
        step_count = 0\<rparr>) =
     Inr (Unbatched \<lparr>locs = grid_locs grid3,
        probe = [True, False, False, False, True, False, False, False, False],
        action_mask = [True, True, True, True, True, False, True, False, True],
        step_count = 0\<rparr>)"
  by (simp add: reset_def)

subsection \<open>The reward of one instance\<close>

text \<open>
  Claim C2. The spec has \<open>_single_env_reward\<close> return the minimum of the per-probe scores
  for \<open>minmax\<close> and their mean for \<open>meansum\<close>: 0.4 and 0.65 for the scores 0.4 and 0.9.
  On a 3 by 3 grid with probes at cells 0 and 4 and a simulator that scores 0.4 at cell 0
  and 0.9 at cell 4, the code returns 0 for \<open>minmax\<close>, because the scores are stored in a
  tensor of 64-bit integers and each is truncated, and it raises for \<open>meansum\<close>, because
  the mean of an integer tensor is refused.
\<close>

theorem reward_example_truncated:
  "single_env_reward \<lparr>env_size = 3, num_keepout_min = 0, num_keepout_max = 1,
        num_probes_min = 2, num_probes_max = 3, reward_type = ''minmax''\<rparr>
     (\<lambda>p a. if p = 0 then 4 / 10 else 9 / 10)
     \<lparr>locs = [], probe = [True, False, False, False, True, False, False, False, False],
      action_mask = [False, True, True, True, False, True, True, True, True]\<rparr> [1, 2] = Inr 0
   \<and> single_env_reward \<lparr>env_size = 3, num_keepout_min = 0, num_keepout_max = 1,
        num_probes_min = 2, num_probes_max = 3, reward_type = ''meansum''\<rparr>
     (\<lambda>p a. if p = 0 then 4 / 10 else 9 / 10)
     \<lparr>locs = [], probe = [True, False, False, False, True, False, False, False, False],
      action_mask = [False, True, True, True, False, True, True, True, True]\<rparr> [1, 2] = Inl RuntimeError"
  by (simp add: single_env_reward_def nonzero_def squeeze_def fill_scores_def to_long_def
      tensor_min_def mean_long_def upt_rec)

subsection \<open>Generation\<close>

text \<open>
  Claim C3. The spec has the probe cells and the keepout cells of a generated instance
  disjoint, the keepout cells being sampled from the cells still available. The code
  takes the keepout cells from a fresh permutation of all cells: with the draws \<open>draw3\<close>
  the probe cells are 4 and 0 and the keepout cells are 0 and 5, so cell 0 is both. The
  comment above the sampling says that keepout locations are sampled except the probe.
\<close>

theorem keepout_overlaps_probe:
  "generate_data grid3 (IntSize 1) (\<lambda>i. draw3) =
     Inr (Batched [\<lparr>locs = grid_locs grid3,
        probe = [True, False, False, False, True, False, False, False, False],
        action_mask = [False, True, True, True, False, False, True, False, True]\<rparr>])
   \<and> probe_cells grid3 draw3 = [4, 0] \<and> keepout_cells grid3 draw3 = [0, 5]
   \<and> set (probe_cells grid3 draw3) \<inter> set (keepout_cells grid3 draw3) = {0}"
  by (simp add: eval_generate)

text \<open>
  Claim C4, as amended. With \<open>num_keepout_min = 0\<close> and \<open>num_keepout_max = 1\<close> the sampled
  number of keepout cells is zero and no keepout cell is selected, and in the action mask
  that \<open>generate_data\<close> emits a cell is selectable iff it is neither a probe cell nor the
  designated probe cell.
\<close>

theorem no_keepout_mask:
  assumes "num_keepout_min self = 0" and "num_keepout_max self = 1"
    and "generate_data self bsz rnd = Inr out" and "i < length (rows out)"
  shows "num_keepout_of self (rnd i) = 0 \<and> keepout_cells self (rnd i) = []
    \<and> length (action_mask (rows out ! i)) = num_cells self
    \<and> length (probe (rows out ! i)) = num_cells self
    \<and> (\<forall>c < num_cells self. action_mask (rows out ! i) ! c \<longleftrightarrow>
          \<not> probe (rows out ! i) ! c \<and> c \<noteq> designated_cell self (rnd i))"
proof -
  note row = generate_data_row [OF assms(3,4)]
  have k: "num_keepout_of self (rnd i) = 0"
    using assms(1,2) by (simp add: num_keepout_of_def randint1_def)
  then have ks: "keepout_cells self (rnd i) = []"
    by (simp add: keepout_cells_def slice_to_def)
  show ?thesis
    using k ks by (auto simp: row gen_row_lengths gen_row_probe gen_row_action_mask)
qed

text \<open>The amended claim at the instance of \<open>grid3\<close> and \<open>draw3\<close>, without keepout cells.\<close>

theorem no_keepout_mask_witness:
  "generate_data (grid3\<lparr>num_keepout_min := 0, num_keepout_max := 1\<rparr>) NoBatch (\<lambda>i. draw3) =
     Inr (Unbatched \<lparr>locs = grid_locs grid3,
        probe = [True, False, False, False, True, False, False, False, False],
        action_mask = [False, True, True, True, False, True, True, False, True]\<rparr>)
   \<and> keepout_cells (grid3\<lparr>num_keepout_min := 0, num_keepout_max := 1\<rparr>) draw3 = []
   \<and> designated_cell (grid3\<lparr>num_keepout_min := 0, num_keepout_max := 1\<rparr>) draw3 = 7"
proof -
  have g: "generate_data (grid3\<lparr>num_keepout_min := 0, num_keepout_max := 1\<rparr>) NoBatch (\<lambda>i. draw3) =
     Inr (Unbatched \<lparr>locs = grid_locs grid3,
        probe = [True, False, False, False, True, False, False, False, False],
        action_mask = [False, True, True, True, False, True, True, False, True]\<rparr>)"
    by (simp add: eval_generate grid_locs_def)
  have a: "num_keepout_min (grid3\<lparr>num_keepout_min := 0, num_keepout_max := 1\<rparr>) = 0"
    and b: "num_keepout_max (grid3\<lparr>num_keepout_min := 0, num_keepout_max := 1\<rparr>) = 1"
    by simp_all
  from no_keepout_mask [OF a b g, of 0] show ?thesis
    using g by (simp add: designated_cell_eq num_cells_def grid3_def draw3_def)
qed

text \<open>
  Claim C4 as the spec states it fails: the action mask after the reset is not the
  negated probe mask. On the instance above it is false at the designated cell 7, which
  is no probe cell, and true at the probe cells 0 and 4.
\<close>

theorem reset_mask_is_not_negated_probe:
  "then_do (generate_data (grid3\<lparr>num_keepout_min := 0, num_keepout_max := 1\<rparr>) NoBatch (\<lambda>i. draw3))
     (reset dpp_reset) =
     Inr (Unbatched \<lparr>locs = grid_locs grid3,
        probe = [True, False, False, False, True, False, False, False, False],
        action_mask = [True, True, True, True, True, True, True, False, True], step_count = 0\<rparr>)
   \<and> [True, True, True, True, True, True, True, False, True] \<noteq>
       map Not [True, False, False, False, True, False, False, False, False]"
  by (simp add: eval_generate grid_locs_def reset_def dpp_reset_def)

text \<open>
  Claim C5. For every row of a generated batch the sampled number of probes lies in
  \<open>[num_probes_min, num_probes_max)\<close>, the upper bound excluded. It is computed from the
  raw draw of that row alone, the probe mask of the row is true exactly at the first
  \<open>num_probe\<close> cells of the row's permutation, and when \<open>num_probe\<close> is between zero and
  the number of cells the probe mask has exactly \<open>num_probe\<close> true cells.
\<close>

theorem num_probe_in_range:
  assumes "generate_data self bsz rnd = Inr out" and "i < length (rows out)"
  shows "num_probes_min self \<le> num_probe_of self (rnd i)
    \<and> num_probe_of self (rnd i) < num_probes_max self
    \<and> num_probe_of self (rnd i) =
        num_probes_min self + int (d_num_probe (rnd i)) mod (num_probes_max self - num_probes_min self)
    \<and> (\<forall>c < num_cells self. probe (rows out ! i) ! c \<longleftrightarrow>
          c \<in> set (slice_to (num_probe_of self (rnd i)) (d_perm_probe (rnd i))))
    \<and> (is_randperm (num_cells self) (d_perm_probe (rnd i)) \<and> 0 \<le> num_probe_of self (rnd i)
        \<and> num_probe_of self (rnd i) \<le> int (num_cells self) \<longrightarrow>
        count_list (probe (rows out ! i)) True = nat (num_probe_of self (rnd i)))"
proof -
  note row = generate_data_row [OF assms]
  have "num_probes_min self < num_probes_max self" using assms(1) by (rule generate_data_valid)
  then have rng: "num_probes_min self \<le> num_probe_of self (rnd i)
      \<and> num_probe_of self (rnd i) < num_probes_max self"
    unfolding num_probe_of_def by (rule randint1_range)
  have cnt: "count_list (probe (rows out ! i)) True = nat (num_probe_of self (rnd i))"
    if "is_randperm (num_cells self) (d_perm_probe (rnd i))" and "0 \<le> num_probe_of self (rnd i)"
      and "num_probe_of self (rnd i) \<le> int (num_cells self)"
  proof -
    have "count_list (probe (gen_row self (rnd i))) True = length (probe_cells self (rnd i))"
      unfolding gen_row_def probe_cells_def
      by (simp add: count_write_at slice_to_randperm [OF that(1)])
    also have "\<dots> = nat (num_probe_of self (rnd i))"
      unfolding probe_cells_def using that by (simp add: slice_to_randperm)
    finally show ?thesis by (simp add: row)
  qed
  show ?thesis
    using rng cnt
    by (simp add: row gen_row_probe probe_cells_def [symmetric]) (simp add: num_probe_of_def randint1_def)
qed

theorem num_probe_in_range_witness:
  "generate_data grid3 (IntSize 1) (\<lambda>i. draw3) =
     Inr (Batched [\<lparr>locs = grid_locs grid3,
        probe = [True, False, False, False, True, False, False, False, False],
        action_mask = [False, True, True, True, False, False, True, False, True]\<rparr>])
   \<and> num_probe_of grid3 draw3 = 2 \<and> 2 \<le> num_probe_of grid3 draw3 \<and> num_probe_of grid3 draw3 < 5
   \<and> count_list [True, False, False, False, True, False, False, False, False] True = 2"
proof -
  note g = generate_grid3
  have p: "is_randperm (num_cells grid3) (d_perm_probe draw3)"
    by (simp add: is_randperm_def num_cells_def grid3_def draw3_def)
  from num_probe_in_range [OF g, of 0] p show ?thesis
    using g by (simp add: eval_generate)
qed

subsection \<open>The reward of a batch\<close>

text \<open>
  Claim C6. The spec has \<open>get_reward\<close> return an array of shape \<open>(B,)\<close> for a batch of
  \<open>B\<close> instances and a singleton for an unbatched instance, the same on both paths. With
  \<open>reward_type = meansum\<close>, a value the constructor accepts, the code returns no array
  for any input: on a batch of two generated instances with two probes each it raises,
  where with \<open>minmax\<close> it returns the two rewards. The rewards are never computed
  because the scores are kept in a tensor of 64-bit integers, whose mean is refused.
\<close>

theorem get_reward_meansum_raises:
  "get_reward (self\<lparr>reward_type := ''meansum''\<rparr>) decap_simulator inp \<noteq> Inr rs
   \<and> get_reward (grid3\<lparr>reward_type := ''meansum''\<rparr>) (\<lambda>p a. real p + 1 / 2)
        (Batch [\<lparr>locs = grid_locs grid3,
                  probe = [True, False, False, False, True, False, False, False, False],
                  action_mask = [False, True, True, True, False, False, True, False, True]\<rparr>,
                \<lparr>locs = grid_locs grid3,
                  probe = [True, False, False, False, True, False, False, False, False],
                  action_mask = [False, True, True, True, False, False, True, False, True]\<rparr>]
           [[1], [2]]) = Inl RuntimeError
   \<and> get_reward grid3 (\<lambda>p a. real p + 1 / 2)
        (Batch [\<lparr>locs = grid_locs grid3,
                  probe = [True, False, False, False, True, False, False, False, False],
                  action_mask = [False, True, True, True, False, False, True, False, True]\<rparr>,
                \<lparr>locs = grid_locs grid3,
                  probe = [True, False, False, False, True, False, False, False, False],
                  action_mask = [False, True, True, True, False, False, True, False, True]\<rparr>]
           [[1], [2]]) = Inr [0, 0]"
proof -
  let ?td = "\<lparr>locs = grid_locs grid3,
                  probe = [True, False, False, False, True, False, False, False, False],
                  action_mask = [False, True, True, True, False, False, True, False, True]\<rparr>"
  let ?sim = "\<lambda>(p::nat) (a::nat list). real p + 1 / 2"
  have nz: "nonzero [True, False, False, False, True, False, False, False, False] = [0, 4]"
    by (simp add: nonzero_def upt_rec)
  have mean: "single_env_reward (grid3\<lparr>reward_type := ''meansum''\<rparr>) ?sim ?td actions
      = Inl RuntimeError" for actions
    by (simp add: single_env_reward_def nz squeeze_def mean_long_def grid3_def)
  have mini: "single_env_reward grid3 ?sim ?td actions = Inr 0" for actions
    by (simp add: single_env_reward_def nz squeeze_def fill_scores_def to_long_def
        tensor_min_def grid3_def)
  have "get_reward (self\<lparr>reward_type := ''meansum''\<rparr>) decap_simulator inp \<noteq> Inr rs"
    by (rule get_reward_meansum_fails)
  moreover have "get_reward (grid3\<lparr>reward_type := ''meansum''\<rparr>) ?sim
      (Batch [?td, ?td] [[1], [2]]) = Inl RuntimeError"
    by (simp add: get_reward_def mean)
  moreover have "get_reward grid3 ?sim (Batch [?td, ?td] [[1], [2]]) = Inr [0, 0]"
    by (simp add: get_reward_def mini stack_def)
  ultimately show ?thesis by blast
qed

text \<open>
  Where \<open>get_reward\<close> does return: the unbatched call is the call on the batch of that one
  instance, errors included, and its result has one element; on a batch of \<open>B\<close>
  instances with \<open>B\<close> rows of actions the result has \<open>B\<close> elements; and a result is
  returned when the reward type is \<open>minmax\<close>, the batch is not empty and every instance
  has at least two probe cells.
\<close>

lemma get_reward_shape:
  "get_reward self sim (Single td a) = get_reward self sim (Batch [td] [a])
   \<and> (get_reward self sim (Single td a) = Inr rs1 \<longrightarrow> length rs1 = 1)
   \<and> (length acts = length tds \<and> get_reward self sim (Batch tds acts) = Inr rs \<longrightarrow>
        length rs = length tds)
   \<and> (reward_type self = ''minmax'' \<and> tds \<noteq> [] \<and> length acts = length tds \<and>
        list_all (\<lambda>td. 2 \<le> count_list (probe td) True) tds \<longrightarrow>
        (\<exists>rs. get_reward self sim (Batch tds acts) = Inr rs))"
proof (intro conjI impI)
  show "get_reward self sim (Single td a) = get_reward self sim (Batch [td] [a])"
    by (rule get_reward_single)
next
  assume "get_reward self sim (Single td a) = Inr rs1"
  then have "get_reward self sim (Batch [td] [a]) = Inr rs1"
    by (simp only: get_reward_single)
  from get_reward_length [OF this] show "length rs1 = 1" by simp
next
  assume "length acts = length tds \<and> get_reward self sim (Batch tds acts) = Inr rs"
  then show "length rs = length tds"
    using get_reward_length [of self sim tds acts rs] by simp
next
  assume "reward_type self = ''minmax'' \<and> tds \<noteq> [] \<and> length acts = length tds \<and>
        list_all (\<lambda>td. 2 \<le> count_list (probe td) True) tds"
  then show "\<exists>rs. get_reward self sim (Batch tds acts) = Inr rs"
    using get_reward_returns by blast
qed

lemma get_reward_shape_at_two_instances:
  "get_reward \<lparr>env_size = 2, num_keepout_min = 0, num_keepout_max = 1,
        num_probes_min = 2, num_probes_max = 3, reward_type = ''minmax''\<rparr> (\<lambda>p a. real p + 1 / 2)
      (Single \<lparr>locs = [], probe = [False, True, True, False],
         action_mask = [True, False, False, True]\<rparr> [0])
    = get_reward \<lparr>env_size = 2, num_keepout_min = 0, num_keepout_max = 1,
        num_probes_min = 2, num_probes_max = 3, reward_type = ''minmax''\<rparr> (\<lambda>p a. real p + 1 / 2)
      (Batch [\<lparr>locs = [], probe = [False, True, True, False],
         action_mask = [True, False, False, True]\<rparr>] [[0]])
   \<and> (\<exists>rs. get_reward \<lparr>env_size = 2, num_keepout_min = 0, num_keepout_max = 1,
        num_probes_min = 2, num_probes_max = 3, reward_type = ''minmax''\<rparr> (\<lambda>p a. real p + 1 / 2)
      (Batch [\<lparr>locs = [], probe = [False, True, True, False],
                action_mask = [True, False, False, True]\<rparr>,
              \<lparr>locs = [], probe = [True, False, True, True],
                action_mask = [False, True, False, False]\<rparr>] [[0], [1]]) = Inr rs
        \<and> length rs = 2)"
proof -
  let ?e = "\<lparr>env_size = 2, num_keepout_min = 0, num_keepout_max = 1,
        num_probes_min = 2, num_probes_max = 3, reward_type = ''minmax''\<rparr>"
  let ?s = "\<lambda>(p::nat) (a::nat list). real p + 1 / 2"
  let ?t = "\<lparr>locs = [], probe = [False, True, True, False],
         action_mask = [True, False, False, True]\<rparr>"
  let ?u = "\<lparr>locs = [], probe = [True, False, True, True],
                action_mask = [False, True, False, False]\<rparr>"
  note shape = get_reward_shape [of ?e ?s ?t "[0]" _ "[[0], [1]]" "[?t, ?u]"]
  from shape obtain rs where rs: "get_reward ?e ?s (Batch [?t, ?u] [[0], [1]]) = Inr rs"
    by auto
  with shape [of _ rs] have "length rs = 2" by simp
  with rs shape show ?thesis by blast
qed

text \<open>
  Claim C7. The spec compares the \<open>minmax\<close> reward with the \<open>meansum\<close> reward of the same
  instance and actions. With \<open>reward_type = meansum\<close> the code returns no reward at all,
  for any instance, simulator and actions, so there is nothing the \<open>minmax\<close> reward could
  be compared with.
\<close>

theorem meansum_never_returns:
  "single_env_reward (self\<lparr>reward_type := ''meansum''\<rparr>) decap_simulator td actions \<noteq> Inr r"
  by (simp add: single_env_reward_cases)

subsection \<open>Construction\<close>

text \<open>
  Claim C8. With a reward type other than \<open>minmax\<close> and \<open>meansum\<close> the constructor raises
  and no environment exists that an instance could be generated from: when the
  constructor of the base class succeeds, the error is the failed assertion. With either
  recognised value, and the base constructor succeeding, the environment is constructed
  with the given reward type and probe bounds.
\<close>

theorem init_checks_reward_type:
  "(rtype \<noteq> ''minmax'' \<and> rtype \<noteq> ''meansum'' \<longrightarrow>
      (\<exists>e. init super_init probes_min probes_max rtype kwargs = Inl e))
   \<and> (rtype \<noteq> ''minmax'' \<and> rtype \<noteq> ''meansum'' \<and> super_init kwargs = Inr base \<longrightarrow>
      init super_init probes_min probes_max rtype kwargs = Inl AssertionError)
   \<and> ((rtype = ''minmax'' \<or> rtype = ''meansum'') \<and> super_init kwargs = Inr base \<longrightarrow>
      (\<exists>self sp. init super_init probes_min probes_max rtype kwargs = Inr (self, sp)
         \<and> reward_type self = rtype \<and> num_probes_min self = probes_min
         \<and> num_probes_max self = probes_max \<and> env_size self = base_size base))"
  by (cases "super_init kwargs") (auto simp: init_def Let_def)

theorem init_checks_reward_type_witness:
  "init (\<lambda>kw. Inr \<lparr>base_size = kw, base_keepout_min = 1, base_keepout_max = 50\<rparr>) 2 5 ''maxmin'' (10::nat)
     = Inl AssertionError
   \<and> (\<exists>self sp. init (\<lambda>kw. Inr \<lparr>base_size = kw, base_keepout_min = 1, base_keepout_max = 50\<rparr>)
          2 5 ''meansum'' (10::nat) = Inr (self, sp) \<and> reward_type self = ''meansum'')"
  using init_checks_reward_type [of "''maxmin''" "\<lambda>kw. Inr \<lparr>base_size = kw, base_keepout_min = 1, base_keepout_max = 50\<rparr>" 2 5 "10::nat" "\<lparr>base_size = 10, base_keepout_min = 1, base_keepout_max = 50\<rparr>"]
    init_checks_reward_type [of "''meansum''" "\<lambda>kw. Inr \<lparr>base_size = kw, base_keepout_min = 1, base_keepout_max = 50\<rparr>" 2 5 "10::nat" "\<lparr>base_size = 10, base_keepout_min = 1, base_keepout_max = 50\<rparr>"]
  by auto

subsection \<open>The designated probe cell\<close>

text \<open>
  Claim C9. For every row of a generated batch \<open>generate_data\<close> draws one designated
  probe cell, the raw draw reduced modulo the number of cells, and marks it unavailable
  before the probe set is sampled: the emitted action mask is false at that cell, and a
  cell is selectable iff it is not the designated cell, not one of the probe cells and
  not one of the keepout cells. The probe mask is true exactly at the probe cells.
\<close>

theorem designated_probe_excluded:
  assumes "generate_data self bsz rnd = Inr out" and "i < length (rows out)"
  shows "designated_cell self (rnd i) = d_probe (rnd i) mod num_cells self
    \<and> designated_cell self (rnd i) < num_cells self
    \<and> length (action_mask (rows out ! i)) = num_cells self
    \<and> \<not> action_mask (rows out ! i) ! designated_cell self (rnd i)
    \<and> (\<forall>c < num_cells self.
          (probe (rows out ! i) ! c \<longleftrightarrow> c \<in> set (probe_cells self (rnd i))) \<and>
          (action_mask (rows out ! i) ! c \<longleftrightarrow>
             c \<noteq> designated_cell self (rnd i) \<and> c \<notin> set (probe_cells self (rnd i))
             \<and> c \<notin> set (keepout_cells self (rnd i))))"
proof -
  note row = generate_data_row [OF assms]
  have n: "0 < num_cells self" using assms(1) by (rule generate_data_valid)
  then have d: "designated_cell self (rnd i) < num_cells self" by (rule designated_cell_less)
  show ?thesis
    using d by (simp add: row gen_row_lengths gen_row_probe gen_row_action_mask designated_cell_eq)
qed

theorem designated_probe_excluded_witness:
  "generate_data grid3 (IntSize 1) (\<lambda>i. draw3) =
     Inr (Batched [\<lparr>locs = grid_locs grid3,
        probe = [True, False, False, False, True, False, False, False, False],
        action_mask = [False, True, True, True, False, False, True, False, True]\<rparr>])
   \<and> designated_cell grid3 draw3 = 7
   \<and> \<not> [False, True, True, True, False, False, True, False, True] ! designated_cell grid3 draw3
   \<and> 7 \<notin> set (probe_cells grid3 draw3) \<and> 7 \<notin> set (keepout_cells grid3 draw3)"
proof -
  note g = generate_grid3
  from designated_probe_excluded [OF g, of 0] show ?thesis
    using g by (simp add: eval_generate)
qed

subsection \<open>Instances with a single probe\<close>

text \<open>
  Claim C10. An instance whose probe mask has exactly one true cell gets no reward:
  \<open>_single_env_reward\<close> raises \<open>TypeError\<close> when it enumerates the zero-dimensional index
  tensor. Whenever a reward is returned the probe mask has at least two true cells (and
  the reward type is \<open>minmax\<close>), and with at least two probe cells and \<open>minmax\<close> a reward
  is returned.
\<close>

theorem single_probe_reward_fails:
  "(count_list (probe td) True = 1 \<longrightarrow>
      single_env_reward self decap_simulator td actions = Inl TypeError)
   \<and> (single_env_reward self decap_simulator td actions = Inr r \<longrightarrow>
        2 \<le> count_list (probe td) True \<and> reward_type self = ''minmax'')
   \<and> (2 \<le> count_list (probe td) True \<and> reward_type self = ''minmax'' \<longrightarrow>
        (\<exists>r. single_env_reward self decap_simulator td actions = Inr r))"
proof (intro conjI impI)
  assume "count_list (probe td) True = 1"
  then show "single_env_reward self decap_simulator td actions = Inl TypeError"
    by (simp add: single_env_reward_cases)
next
  assume ret: "single_env_reward self decap_simulator td actions = Inr r"
  then have one: "count_list (probe td) True \<noteq> 1" and mm: "reward_type self = ''minmax''"
    by (auto simp: single_env_reward_cases split: if_splits)
  with ret have "nonzero (probe td) \<noteq> []"
    by (auto simp: single_env_reward_cases dest: tensor_min_eq_Inr)
  then have "count_list (probe td) True \<noteq> 0"
    by (simp add: length_nonzero [symmetric])
  with one show "2 \<le> count_list (probe td) True" by arith
  from mm show "reward_type self = ''minmax''" .
next
  assume h: "2 \<le> count_list (probe td) True \<and> reward_type self = ''minmax''"
  then have "nonzero (probe td) \<noteq> []"
    using length_nonzero [of "probe td"] by auto
  then have "\<exists>r. tensor_min (map (\<lambda>p. to_long (decap_simulator p actions)) (nonzero (probe td))) = Inr r"
    by (intro tensor_min_returns) simp
  with h show "\<exists>r. single_env_reward self decap_simulator td actions = Inr r"
    by (simp add: single_env_reward_cases)
qed

theorem single_probe_reward_fails_witness:
  "single_env_reward \<lparr>env_size = 2, num_keepout_min = 0, num_keepout_max = 1,
        num_probes_min = 1, num_probes_max = 2, reward_type = ''minmax''\<rparr>
     (\<lambda>p a. 1) \<lparr>locs = [], probe = [False, True, False, False],
      action_mask = [True, False, True, True]\<rparr> [0] = Inl TypeError
   \<and> (\<exists>r. single_env_reward \<lparr>env_size = 2, num_keepout_min = 0, num_keepout_max = 1,
        num_probes_min = 2, num_probes_max = 3, reward_type = ''minmax''\<rparr>
     (\<lambda>p a. 1) \<lparr>locs = [], probe = [False, True, True, False],
      action_mask = [True, False, False, True]\<rparr> [0] = Inr r)"
  using single_probe_reward_fails [of "\<lparr>locs = [], probe = [False, True, False, False],
      action_mask = [True, False, True, True]\<rparr>" "\<lparr>env_size = 2, num_keepout_min = 0, num_keepout_max = 1,
        num_probes_min = 1, num_probes_max = 2, reward_type = ''minmax''\<rparr>" "\<lambda>p a. 1" "[0]"]
    single_probe_reward_fails [of "\<lparr>locs = [], probe = [False, True, True, False],
      action_mask = [True, False, False, True]\<rparr>" "\<lparr>env_size = 2, num_keepout_min = 0, num_keepout_max = 1,
        num_probes_min = 2, num_probes_max = 3, reward_type = ''minmax''\<rparr>" "\<lambda>p a. 1" "[0]"]
  by simp

end
